theory Spec2Isabelle
  imports Complex_Main "HOL-Library.Sublist"
begin

section \<open>Strings as Python sees them\<close>

text \<open>
  A Python \<open>str\<close> is modelled as a HOL \<open>string\<close>; a character is read as a code point
  below 256. \<open>is_space\<close> is \<open>str.isspace\<close> on that range (it is also what \<open>\s\<close> matches in
  a \<open>re\<close> pattern over \<open>str\<close>), \<open>strip\<close> is \<open>str.strip()\<close>, \<open>lower\<close> is \<open>str.lower()\<close>,
  and \<open>needle in hay\<close> is \<open>sublist needle hay\<close>.
\<close>

definition code :: "char \<Rightarrow> nat" where
  "code c = of_char c"

definition is_space :: "char \<Rightarrow> bool" where
  "is_space c = ((9 \<le> code c \<and> code c \<le> 13) \<or> (28 \<le> code c \<and> code c \<le> 32)
                 \<or> code c = 133 \<or> code c = 160)"

definition strip :: "string \<Rightarrow> string" where
  "strip s = rev (dropWhile is_space (rev (dropWhile is_space s)))"

definition lower_char :: "char \<Rightarrow> char" where
  "lower_char c =
     (if (65 \<le> code c \<and> code c \<le> 90) \<or> (192 \<le> code c \<and> code c \<le> 222 \<and> code c \<noteq> 215)
      then char_of (code c + 32) else c)"

definition lower :: "string \<Rightarrow> string" where
  "lower s = map lower_char s"

text \<open>
  \<open>xs[i:j]\<close> for Python integers: a negative index counts from the end, and both ends are
  clamped to the list.
\<close>

definition py_index :: "nat \<Rightarrow> int \<Rightarrow> nat" where
  "py_index n k = (if k < 0 then nat (max (k + int n) 0) else min (nat k) n)"

definition py_slice :: "'a list \<Rightarrow> int \<Rightarrow> int \<Rightarrow> 'a list" where
  "py_slice xs i j =
     (let a = py_index (length xs) i; b = py_index (length xs) j
      in take (b - a) (drop a xs))"

section \<open>Configuration\<close>

definition CHUNK_SIZE :: int where
  "CHUNK_SIZE = 1000"

definition CHUNK_OVERLAP :: int where
  "CHUNK_OVERLAP = 200"

definition TOP_K :: nat where
  "TOP_K = 3"

section \<open>Chunking\<close>

text \<open>
  The \<open>while start < len(text)\<close> loop of \<open>chunk_text\<close>, with the loop variables \<open>start\<close> and
  \<open>chunks\<close> as arguments. The loop need not terminate, so the result is an option:
  \<open>None\<close> is a loop that runs forever.
\<close>

partial_function (option) chunk_loop ::
  "string \<Rightarrow> int \<Rightarrow> int \<Rightarrow> int \<Rightarrow> string list \<Rightarrow> string list option" where
  "chunk_loop text chunk_size overlap start chunks =
     (if start < int (length text) then
        (let stop = min (start + chunk_size) (int (length text));
             chunk = strip (py_slice text start stop)
         in chunk_loop text chunk_size overlap (start + (chunk_size - overlap))
              (if chunk \<noteq> [] then chunks @ [chunk] else chunks))
      else Some chunks)"

declare chunk_loop.simps [code]

definition chunk_text :: "string \<Rightarrow> int \<Rightarrow> int \<Rightarrow> string list option" where
  "chunk_text text chunk_size overlap = chunk_loop text chunk_size overlap 0 []"

text \<open>
  The chunking as the specification words it: the windows \<open>text[start : start + size]\<close> at the
  starts \<open>0, step, 2 * step, ...\<close> below the text length, where \<open>step = size - overlap\<close>, each
  trimmed, the empty ones dropped.
\<close>

definition window_starts :: "nat \<Rightarrow> nat \<Rightarrow> nat list" where
  "window_starts n step = map (\<lambda>k. k * step) [0 ..< (n + step - 1) div step]"

definition spec_chunks :: "string \<Rightarrow> nat \<Rightarrow> nat \<Rightarrow> string list" where
  "spec_chunks text sz overlap =
     filter (\<lambda>c. c \<noteq> [])
       (map (\<lambda>start. strip (take sz (drop start text)))
          (window_starts (length text) (sz - overlap)))"

section \<open>Responses\<close>

text \<open>
  A handler answers with an HTTP status and a JSON object, kept as the list of its fields in
  the order the source writes them. An exception raised by a collaborator is \<open>Exc\<close> with its
  message; \<open>JErr e\<close> is the JSON string \<open>str(e)\<close>.
\<close>

datatype error = Exc string | IndexError | ValueError | TypeError | AttributeError

datatype json = JStr string | JNum real | JBool bool | JErr error

record response =
  status :: nat
  body :: "(string \<times> json) list"

text \<open>
  A key of a JSON request body that a handler reads as text: absent, \<open>null\<close>, or a string
  (values of other JSON types are not modelled). \<open>get_key\<close> is \<open>data.get(key)\<close> and
  \<open>get_field\<close> is \<open>data.get(key, default)\<close>; their result is a Python value, \<open>None\<close> or a
  string. \<open>text_of\<close> is the value as a test \<open>if x:\<close> and the uses it guards see it (\<open>None\<close>
  counts as the empty string), \<open>py_format\<close> is the value as an f-string prints it.
\<close>

datatype field = Missing | Null | Str string

definition get_key :: "field \<Rightarrow> string option" where
  "get_key v = (case v of Missing \<Rightarrow> None | Null \<Rightarrow> None | Str x \<Rightarrow> Some x)"

definition get_field :: "field \<Rightarrow> string \<Rightarrow> string option" where
  "get_field v d = (case v of Missing \<Rightarrow> Some d | Null \<Rightarrow> None | Str x \<Rightarrow> Some x)"

definition text_of :: "string option \<Rightarrow> string" where
  "text_of v = (case v of None \<Rightarrow> [] | Some x \<Rightarrow> x)"

definition py_format :: "string option \<Rightarrow> string" where
  "py_format v = (case v of None \<Rightarrow> ''None'' | Some x \<Rightarrow> x)"

section \<open>The accepted-answer log\<close>

definition nl :: string where
  "nl = [CHR 0x0A]"

definition separator :: string where
  "separator = replicate 60 (CHR ''='')"

text \<open>\<open>s.find(sep)\<close>: the least index at which \<open>sep\<close> occurs in \<open>s\<close>.\<close>

fun find_first :: "string \<Rightarrow> string \<Rightarrow> nat option" where
  "find_first sep [] = (if sep = [] then Some 0 else None)"
| "find_first sep (c # cs) =
     (if prefix sep (c # cs) then Some 0 else map_option Suc (find_first sep cs))"

text \<open>
  \<open>s.split(sep)\<close>: cut at the occurrences of \<open>sep\<close>, found from the left without overlap.
  Python raises \<open>ValueError\<close> for an empty separator; the program only passes the literals
  \<open>'.'\<close> and \<open>'=' * 60\<close>, and the model returns \<open>[s]\<close> there.
\<close>

function py_split :: "string \<Rightarrow> string \<Rightarrow> string list" where
  "py_split sep s =
     (if sep = [] then [s]
      else case find_first sep s of
             None \<Rightarrow> [s]
           | Some i \<Rightarrow> take i s # py_split sep (drop (i + length sep) s))"
  by pat_completeness auto

termination py_split
proof (relation "measure (\<lambda>(sep, s). length s)")
  show "wf (measure (\<lambda>(sep, s). length s))" by simp
next
  fix sep s :: string and i
  assume sep: "sep \<noteq> []" and found: "find_first sep s = Some i"
  have "find_first sep s = Some i \<Longrightarrow> i + length sep \<le> length s"
  proof (induction s arbitrary: i)
    case Nil
    then show ?case by (simp split: if_splits)
  next
    case (Cons c cs)
    then show ?case
      by (auto split: if_splits dest: prefix_length_le)
  qed
  with found have "i + length sep \<le> length s" by simp
  with sep show "((sep, drop (i + length sep) s), (sep, s)) \<in> measure (\<lambda>(sep, s). length s)"
    by (cases sep) auto
qed

text \<open>The body of a \<open>POST /api/save-accepted\<close> request.\<close>

record save_request =
  req_fieldContext :: field
  req_answer :: field
  req_partialInput :: field
  req_timestamp :: field

definition get_default :: "'a option \<Rightarrow> 'a \<Rightarrow> 'a" where
  "get_default v d = (case v of None \<Rightarrow> d | Some x \<Rightarrow> x)"

text \<open>The text that the five or six \<open>f.write\<close> calls append for one record.\<close>

definition entry_block :: "string \<Rightarrow> string \<Rightarrow> string \<Rightarrow> string \<Rightarrow> string" where
  "entry_block field_context partial_input answer timestamp =
     nl @ separator @ nl
     @ ''Field: '' @ field_context @ nl
     @ (if partial_input \<noteq> [] then ''User Typed (Hint): '' @ partial_input @ nl else [])
     @ ''Answer: '' @ answer @ nl
     @ ''Date: '' @ timestamp @ nl
     @ separator @ nl"

text \<open>
  \<open>f.read()\<close> on a file opened in text mode: every \<open>\r\n\<close> and every other \<open>\r\<close> of the
  file comes back as \<open>\n\<close>. (Writing in text mode leaves the characters as they are where
  the line separator of the platform is \<open>\n\<close>, which is assumed.)
\<close>

fun read_text :: "string \<Rightarrow> string" where
  "read_text [] = []"
| "read_text [c] = [if c = CHR 0x0D then CHR 0x0A else c]"
| "read_text (c # d # cs) =
     (if c = CHR 0x0D then
        (if d = CHR 0x0A then CHR 0x0A # read_text cs else CHR 0x0A # read_text (d # cs))
      else c # read_text (d # cs))"

text \<open>The search for an entry that holds both \<open>Field: ...\<close> and \<open>Answer: ...\<close>.\<close>

definition is_duplicate :: "string \<Rightarrow> string \<Rightarrow> string \<Rightarrow> bool" where
  "is_duplicate content field_context answer =
     list_ex (\<lambda>entry. sublist (''Field: '' @ field_context) entry
                     \<and> sublist (''Answer: '' @ answer) entry)
       (py_split separator content)"

text \<open>
  \<open>save_accepted_answer\<close>: the file \<open>AcceptedAnswers.txt\<close> is \<open>None\<close> while it does not
  exist and the characters written to it otherwise; \<open>now\<close> is \<open>datetime.now().isoformat()\<close>
  at the call. The handler returns its response and the file it leaves. Failures of the
  file system are not modelled.
\<close>

definition save_accepted_answer ::
  "string \<Rightarrow> save_request \<Rightarrow> string option \<Rightarrow> response \<times> string option" where
  "save_accepted_answer now req accepted_file =
     (let field_context = get_field (req_fieldContext req) ''Unknown Field'';
          answer = get_field (req_answer req) [];
          partial_input = get_field (req_partialInput req) [];
          timestamp = get_field (req_timestamp req) now
      in if text_of answer = [] then
           (\<lparr>status = 400,
             body = [(''success'', JBool False), (''error'', JStr ''No answer provided'')]\<rparr>,
            accepted_file)
         else if (case accepted_file of
                    None \<Rightarrow> False
                  | Some written \<Rightarrow>
                      is_duplicate (read_text written) (py_format field_context)
                        (py_format answer)) then
           (\<lparr>status = 200,
             body = [(''success'', JBool True), (''message'', JStr ''Already saved'')]\<rparr>,
            accepted_file)
         else
           (\<lparr>status = 200,
             body = [(''success'', JBool True), (''message'', JStr ''Accepted answer saved'')]\<rparr>,
            Some (get_default accepted_file []
                  @ entry_block (py_format field_context) (text_of partial_input)
                      (py_format answer) (py_format timestamp))))"

section \<open>Regular expressions\<close>

text \<open>
  The patterns of the program use character classes, literals, sequence, alternation, an
  optional group, one capture group, \<open>$\<close>, and repetition of a character class only. \<open>Rep p n\<close>
  is the greedy repetition of the class \<open>p\<close> at least \<open>n\<close> times (\<open>+\<close> is \<open>Rep p 1\<close>, \<open>*\<close> is
  \<open>Rep p 0\<close>, \<open>{8,}\<close> is \<open>Rep p 8\<close>). \<open>rmatch r s\<close> lists the ways \<open>r\<close> matches a prefix of \<open>s\<close>
  in the order a backtracking matcher tries them, each as the rest of \<open>s\<close> and the text of
  the capture group.
\<close>

datatype regex =
    Cls "char \<Rightarrow> bool"
  | Rep "char \<Rightarrow> bool" nat
  | Lit string
  | Seq regex regex
  | Alt regex regex
  | Opt regex
  | Grp regex
  | Eos

fun rmatch :: "regex \<Rightarrow> string \<Rightarrow> (string \<times> string option) list" where
  "rmatch (Cls p) s = (case s of [] \<Rightarrow> [] | c # cs \<Rightarrow> if p c then [(cs, None)] else [])"
| "rmatch (Rep p n) s =
     map (\<lambda>k. (drop k s, None)) (rev [n ..< Suc (length (takeWhile p s))])"
| "rmatch (Lit l) s = (if prefix l s then [(drop (length l) s, None)] else [])"
| "rmatch (Seq a b) s =
     concat (map (\<lambda>(s1, g1).
               map (\<lambda>(s2, g2). (s2, case g2 of None \<Rightarrow> g1 | Some g \<Rightarrow> Some g)) (rmatch b s1))
             (rmatch a s))"
| "rmatch (Alt a b) s = rmatch a s @ rmatch b s"
| "rmatch (Opt a) s = rmatch a s @ [(s, None)]"
| "rmatch (Grp a) s =
     map (\<lambda>(s1, g). (s1, Some (take (length s - length s1) s))) (rmatch a s)"
| "rmatch Eos s = (if s = [] \<or> s = nl then [(s, None)] else [])"

text \<open>\<open>re.match\<close>: the first way, as the matched text and group 1 (\<open>[]\<close> if it took no part).\<close>

definition re_match :: "regex \<Rightarrow> string \<Rightarrow> (string \<times> string) option" where
  "re_match r s =
     (case rmatch r s of
        [] \<Rightarrow> None
      | (rest, g) # _ \<Rightarrow> Some (take (length s - length rest) s, get_default g []))"

text \<open>\<open>re.search\<close>: the match at the leftmost position that has one.\<close>

fun re_search :: "regex \<Rightarrow> string \<Rightarrow> (string \<times> string) option" where
  "re_search r [] = re_match r []"
| "re_search r (c # cs) =
     (case re_match r (c # cs) of Some m \<Rightarrow> Some m | None \<Rightarrow> re_search r cs)"

text \<open>\<open>re.findall\<close> for a pattern without groups: the matches from the left, without overlap.\<close>

fun re_findall :: "regex \<Rightarrow> string \<Rightarrow> string list" where
  "re_findall r [] = []"
| "re_findall r (c # cs) =
     (case re_match r (c # cs) of
        None \<Rightarrow> re_findall r cs
      | Some (m, g) \<Rightarrow> m # re_findall r (drop (length m - 1) cs))"

text \<open>\<open>re.split(r'[\n\r]+', s)\<close>: the fields between the runs of line breaks.\<close>

definition is_break :: "char \<Rightarrow> bool" where
  "is_break c = (code c = 10 \<or> code c = 13)"

function split_breaks :: "string \<Rightarrow> string \<Rightarrow> string list" where
  "split_breaks cur [] = [cur]"
| "split_breaks cur (c # cs) =
     (if is_break c then cur # split_breaks [] (dropWhile is_break cs)
      else split_breaks (cur @ [c]) cs)"
  by pat_completeness auto

termination split_breaks
  by (relation "measure (\<lambda>(cur, s). length s)") (auto simp: length_dropWhile_le le_imp_less_Suc)

text \<open>\<open>s.split()\<close>: the maximal runs of characters that are not white space.\<close>

fun words_from :: "string \<Rightarrow> string \<Rightarrow> string list" where
  "words_from cur [] = (if cur = [] then [] else [cur])"
| "words_from cur (c # cs) =
     (if is_space c then (if cur = [] then [] else [cur]) @ words_from [] cs
      else words_from (cur @ [c]) cs)"

definition py_words :: "string \<Rightarrow> string list" where
  "py_words s = words_from [] s"

text \<open>\<open>sep.join(xs)\<close>.\<close>

fun join :: "string \<Rightarrow> string list \<Rightarrow> string" where
  "join sep [] = []"
| "join sep [x] = x"
| "join sep (x # y # ys) = x @ sep @ join sep (y # ys)"

text \<open>\<open>any(word in s for word in words)\<close>.\<close>

definition any_in :: "string list \<Rightarrow> string \<Rightarrow> bool" where
  "any_in words s = list_ex (\<lambda>word. sublist word s) words"

subsection \<open>Character classes and the patterns of the program\<close>

definition is_upper :: "char \<Rightarrow> bool" where
  "is_upper c = (65 \<le> code c \<and> code c \<le> 90)"

definition is_lower :: "char \<Rightarrow> bool" where
  "is_lower c = (97 \<le> code c \<and> code c \<le> 122)"

definition is_digit :: "char \<Rightarrow> bool" where
  "is_digit c = (48 \<le> code c \<and> code c \<le> 57)"

definition is_alpha :: "char \<Rightarrow> bool" where
  "is_alpha c = (is_upper c \<or> is_lower c)"

definition cap_word :: regex where
  "cap_word = Seq (Cls is_upper) (Rep is_lower 1)"

definition two_words :: regex where
  "two_words = Seq cap_word (Seq (Rep is_space 1) cap_word)"

text \<open>\<open>^([A-Z][a-z]+\s+[A-Z][a-z]+(?:\s+[A-Z][a-z]+)?)\s*$\<close>, used with \<open>re.match\<close>.\<close>

definition header_re :: regex where
  "header_re =
     Seq (Grp (Seq two_words (Opt (Seq (Rep is_space 1) cap_word))))
         (Seq (Rep is_space 0) Eos)"

text \<open>
  The header pattern read as a rule on tokens: \<open>capitalized w\<close> says that \<open>w\<close> is a capital
  letter followed by one or more lower-case letters, the text that \<open>[A-Z][a-z]+\<close> matches,
  and \<open>name_header line\<close> that \<open>line\<close> splits at white space into two or three such tokens.
  That \<open>re.match\<close> accepts a trimmed line exactly when it is such a line is proved below.
\<close>

definition capitalized :: "string \<Rightarrow> bool" where
  "capitalized w =
     (case w of [] \<Rightarrow> False | c # cs \<Rightarrow> is_upper c \<and> cs \<noteq> [] \<and> list_all is_lower cs)"

definition name_header :: "string \<Rightarrow> bool" where
  "name_header line =
     (let tokens = py_words line
      in (length tokens = 2 \<or> length tokens = 3) \<and> list_all capitalized tokens)"

text \<open>\<open>(?:Name|NAME|name)[:\s]+([A-Z][a-z]+\s+[A-Z][a-z]+)\<close> and
  \<open>\n([A-Z][a-z]+\s+[A-Z][a-z]+)\n\<close>.\<close>

definition name_patterns :: "regex list" where
  "name_patterns =
     [Seq (Alt (Lit ''Name'') (Alt (Lit ''NAME'') (Lit ''name'')))
          (Seq (Rep (\<lambda>c. c = CHR '':'' \<or> is_space c) 1) (Grp two_words)),
      Seq (Lit nl) (Seq (Grp two_words) (Lit nl))]"

text \<open>\<open>[a-zA-Z0-9._%+-]+@[a-zA-Z0-9.-]+\.[a-zA-Z]{2,}\<close>.\<close>

definition email_re :: regex where
  "email_re =
     Seq (Rep (\<lambda>c. is_alpha c \<or> is_digit c \<or> c \<in> set ''._%+-'') 1)
    (Seq (Lit ''@'')
    (Seq (Rep (\<lambda>c. is_alpha c \<or> is_digit c \<or> c \<in> set ''.-'') 1)
    (Seq (Lit ''.'') (Rep is_alpha 2))))"

text \<open>\<open>[+]?\d[\d\s()-]{8,}\<close>.\<close>

definition phone_re :: regex where
  "phone_re =
     Seq (Opt (Lit ''+''))
    (Seq (Cls is_digit) (Rep (\<lambda>c. is_digit c \<or> is_space c \<or> c \<in> set ''()-'') 8))"

text \<open>\<open>https?://[^\s,)]+\<close>.\<close>

definition url_re :: regex where
  "url_re =
     Seq (Lit ''http'')
    (Seq (Opt (Lit ''s''))
    (Seq (Lit ''://'') (Rep (\<lambda>c. \<not> is_space c \<and> c \<notin> set '',)'') 1)))"

section \<open>Answer synthesis\<close>

subsection \<open>The fallback extraction of \<open>generate_answer\<close>\<close>

text \<open>
  Each branch of the \<open>if\<close>/\<open>elif\<close> chain is a function that returns \<open>Some answer\<close> where
  the source returns from inside the branch, and \<open>None\<close> where control leaves the branch and
  reaches the general extraction below the chain.
\<close>

fun first_name_pattern :: "string \<Rightarrow> regex list \<Rightarrow> string option" where
  "first_name_pattern first_part [] = None"
| "first_name_pattern first_part (pattern # patterns) =
     (case re_search pattern first_part of
        None \<Rightarrow> first_name_pattern first_part patterns
      | Some (m, g) \<Rightarrow>
          (let name = strip g
           in if 2 \<le> length (py_words name) then Some name
              else first_name_pattern first_part patterns))"

text \<open>\<open>lines[0] if lines else ""\<close>, for the stripped non-empty lines of the context.\<close>

definition first_line :: "string \<Rightarrow> string" where
  "first_line context =
     (let lines = filter (\<lambda>line. line \<noteq> []) (map strip (split_breaks [] context))
      in case lines of [] \<Rightarrow> [] | line # _ \<Rightarrow> line)"

definition extract_name :: "string \<Rightarrow> string option" where
  "extract_name context =
     (case re_match header_re (first_line context) of
        Some (m, g) \<Rightarrow> Some (strip g)
      | None \<Rightarrow> first_name_pattern (take 300 context) name_patterns)"

definition extract_email :: "string \<Rightarrow> string \<Rightarrow> string option" where
  "extract_email context partial_input =
     (let email_matches = re_findall email_re context
      in case email_matches of
           [] \<Rightarrow> None
         | first # _ \<Rightarrow>
             (if partial_input \<noteq> [] then
                (case filter (\<lambda>e. sublist (lower partial_input) (lower e)) email_matches of
                   [] \<Rightarrow> Some first
                 | hit # _ \<Rightarrow> Some hit)
              else Some first))"

definition extract_phone :: "string \<Rightarrow> string option" where
  "extract_phone context =
     (case re_search phone_re context of
        None \<Rightarrow> None
      | Some (m, g) \<Rightarrow> Some (strip m))"

definition first_of :: "string list \<Rightarrow> string option" where
  "first_of xs = (case xs of [] \<Rightarrow> None | x # _ \<Rightarrow> Some x)"

definition or_else :: "'a option \<Rightarrow> 'a option \<Rightarrow> 'a option" where
  "or_else a b = (case a of None \<Rightarrow> b | Some x \<Rightarrow> Some x)"

definition extract_url :: "string \<Rightarrow> string \<Rightarrow> string \<Rightarrow> string option" where
  "extract_url query_lower context field_context =
     (let urls = re_findall url_re context;
          main_links =
            filter (\<lambda>url. any_in [''github.com'', ''linkedin.com'', ''portfolio'',
                                   ''render.com'', ''vercel.app''] (lower url)) urls;
          multiple =
            (if any_in [''example'', ''examples'', ''links'', ''websites''] (lower field_context)
                \<and> main_links \<noteq> []
             then Some (join '', '' (take 3 main_links)) else None);
          github =
            (if sublist ''github'' query_lower \<or> sublist ''github'' (lower field_context)
             then first_of (filter (\<lambda>u. sublist ''github.com'' (lower u)) urls) else None);
          linkedin =
            (if sublist ''linkedin'' query_lower \<or> sublist ''linkedin'' (lower field_context)
             then first_of (filter (\<lambda>u. sublist ''linkedin.com'' (lower u)) urls) else None);
          portfolio =
            (if sublist ''portfolio'' query_lower \<or> sublist ''portfolio'' (lower field_context)
             then first_of (filter (\<lambda>u. \<not> sublist ''github.com'' (lower u)
                                       \<and> \<not> sublist ''linkedin.com'' (lower u)) urls)
             else None)
      in or_else multiple (or_else github (or_else linkedin (or_else portfolio (first_of urls)))))"

definition general_extraction :: "string \<Rightarrow> string \<Rightarrow> string" where
  "general_extraction query_lower context =
     (let sentences = py_split ''.'' context;
          relevant = map strip (filter (\<lambda>s. any_in (py_words query_lower) (lower s)) sentences)
      in case relevant of [] \<Rightarrow> ''Not in DB'' | r # _ \<Rightarrow> take 200 r)"

definition name_words :: "string list" where
  "name_words = [''name'', ''called'', ''who'', ''your name'', ''my name'']"

definition email_words :: "string list" where
  "email_words = [''email'', ''mail'']"

definition phone_words :: "string list" where
  "phone_words = [''phone'', ''mobile'', ''contact'', ''number'']"

definition url_words :: "string list" where
  "url_words = [''website'', ''link'', ''github'', ''linkedin'', ''portfolio'', ''url'']"

definition fallback_extraction :: "string \<Rightarrow> string \<Rightarrow> string \<Rightarrow> string \<Rightarrow> string" where
  "fallback_extraction query context field_context partial_input =
     (let query_lower = lower query;
          returned =
            (if any_in name_words query_lower then extract_name context
             else if any_in email_words query_lower then extract_email context partial_input
             else if any_in phone_words query_lower then extract_phone context
             else if any_in url_words (query_lower @ '' '' @ lower field_context)
               then extract_url query_lower context field_context
             else None)
      in case returned of
           Some answer \<Rightarrow> answer
         | None \<Rightarrow> general_extraction query_lower context)"

text \<open>
  The condition of each branch of the chain, read off the source in its order, as the field
  type the branch serves.
\<close>

datatype field_type = Name | Email | Phone | Url | Generic

definition classify :: "string \<Rightarrow> string \<Rightarrow> field_type" where
  "classify query field_context =
     (let query_lower = lower query
      in if any_in name_words query_lower then Name
         else if any_in email_words query_lower then Email
         else if any_in phone_words query_lower then Phone
         else if any_in url_words (query_lower @ '' '' @ lower field_context) then Url
         else Generic)"


subsection \<open>The language model\<close>

text \<open>
  Ollama is outside the program. \<open>llama_listed k\<close> is the result of the \<open>k\<close>-th call of
  \<open>check_llama_available\<close> within one request, counted from 0 (the call in
  \<open>generate_answer\<close> comes first); \<open>generate prompt\<close> is the text
  \<open>ollama.generate(...)['response']\<close>, or the exception raised on the way.
\<close>

record ollama =
  llama_listed :: "nat \<Rightarrow> bool"
  generate :: "string \<Rightarrow> error + string"

definition sq :: string where
  "sq = [CHR 0x27]"

definition dq :: string where
  "dq = [CHR 0x22]"

definition build_prompt :: "string \<Rightarrow> string \<Rightarrow> string \<Rightarrow> string \<Rightarrow> string" where
  "build_prompt query context field_context partial_input =
     (let hint_text =
            (if partial_input \<noteq> [] then
               nl @ ''User'' @ sq @ ''s Partial Input (as hint): '' @ partial_input @ nl
               @ ''Note: The user typed '' @ sq @ partial_input @ sq
               @ '' - use this to correct or complete the answer if relevant (e.g., if they typed ''
               @ sq @ ''medi'' @ sq @ '' and email contains '' @ sq @ ''medi'' @ sq
               @ '', prioritize that email).''
             else []);
          is_multiple =
            any_in [''examples'', ''links'', ''websites'', ''multiple'', ''list''] (lower field_context);
          multiple_hint =
            (if is_multiple then
               nl @ ''- If the field asks for multiple items (e.g., '' @ dq @ ''Examples:'' @ dq
               @ '', '' @ dq @ ''Links:'' @ dq
               @ ''), provide ALL relevant items separated by commas''
             else [])
      in ''You are a form-filling assistant. Based on the provided context, answer the question concisely.''
         @ nl @ nl @ ''Context:'' @ nl @ context @ nl @ nl
         @ ''Field Context: '' @ (if field_context \<noteq> [] then field_context else ''General field'') @ nl
         @ ''Question: '' @ query @ hint_text @ nl @ nl
         @ ''Instructions:'' @ nl
         @ ''- Provide ONLY the answer for the form field'' @ nl
         @ ''- Keep it brief (1-3 words for short fields, 1-2 sentences for text areas)''
         @ multiple_hint @ nl
         @ ''- If the user provided partial input, use it as a hint to correct or complete the answer''
         @ nl
         @ ''- If information is not in context, respond with exactly '' @ dq @ ''Not in DB'' @ dq @ nl
         @ ''- No explanations or extra text'' @ nl @ nl
         @ ''Answer:'')"

text \<open>
  The fallback extraction for \<open>field_context\<close> as Python passes it, a string or \<open>None\<close>.
  The chain reads \<open>field_context\<close> first in the url test (line 512), after the name, email
  and phone tests; with \<open>None\<close> that read raises \<open>AttributeError\<close>. The name, email and
  phone branches and the general extraction never read it.
\<close>

definition fallback_answer :: "string \<Rightarrow> string \<Rightarrow> string option \<Rightarrow> string \<Rightarrow> error + string" where
  "fallback_answer query context field_context partial_input =
     (case field_context of
        Some fc \<Rightarrow> Inr (fallback_extraction query context fc partial_input)
      | None \<Rightarrow>
          if any_in name_words (lower query) \<or> any_in email_words (lower query)
             \<or> any_in phone_words (lower query)
          then Inr (fallback_extraction query context [] partial_input)
          else Inl AttributeError)"

text \<open>
  \<open>generate_answer\<close>, together with the branch that returned: the source returns the text
  only, and the branch is kept here to state which one produced it. With \<open>field_context\<close>
  \<open>None\<close> the Ollama branch raises at line 429, inside the \<open>try\<close>, before it calls
  \<open>ollama.generate\<close>, and the fallback runs. \<open>Inl\<close> is an exception that leaves
  \<open>generate_answer\<close>.
\<close>

datatype branch = LlmBranch | FallbackBranch

definition generate_answer_traced ::
  "ollama \<Rightarrow> string \<Rightarrow> string \<Rightarrow> string option \<Rightarrow> string option \<Rightarrow> error + branch \<times> string" where
  "generate_answer_traced llm query context field_context partial_input =
     (let fallback =
            (case fallback_answer query context field_context (text_of partial_input) of
               Inl err \<Rightarrow> Inl err
             | Inr answer \<Rightarrow> Inr (FallbackBranch, answer))
      in if llama_listed llm 0 then
           (case field_context of
              None \<Rightarrow> fallback
            | Some fc \<Rightarrow>
                (case generate llm (build_prompt query context fc (text_of partial_input)) of
                   Inr text \<Rightarrow> Inr (LlmBranch, strip text)
                 | Inl e \<Rightarrow> fallback))
         else fallback)"

definition generate_answer ::
  "ollama \<Rightarrow> string \<Rightarrow> string \<Rightarrow> string option \<Rightarrow> string option \<Rightarrow> error + string" where
  "generate_answer llm query context field_context partial_input =
     (case generate_answer_traced llm query context field_context partial_input of
        Inl err \<Rightarrow> Inl err
      | Inr (b, answer) \<Rightarrow> Inr answer)"

section \<open>The index\<close>

text \<open>
  A float is a real number here and a numpy matrix the list of its rows; rounding and NaN
  are outside the model (a row of norm zero, which numpy turns into NaN, stays zero). The
  empty list is the empty array that \<open>model.encode\<close> returns for no texts; it has one
  dimension only, so the row-wise norm (\<open>axis=1\<close>) and the product with a query vector
  raise on it.
\<close>

type_synonym vec = "real list"

type_synonym matrix = "real list list"

record chunk_doc =
  content :: string
  source :: string
  chunkIndex :: nat
  totalChunks :: nat

text \<open>The dictionary that \<open>save_vector_db_cache\<close> pickles into \<open>cache.pkl\<close>.\<close>

record cache =
  cache_documents :: "chunk_doc list"
  cache_embeddings :: "matrix option"
  cache_timestamp :: string
  cache_model :: string

text \<open>
  The globals \<open>encoder\<close> (loaded or not), \<open>documents\<close>, \<open>embeddings\<close> and
  \<open>vector_db_initialized\<close>, and the cache file on disk (\<open>None\<close> while it does not exist).
\<close>

record server_state =
  encoder_loaded :: bool
  documents :: "chunk_doc list"
  embeddings :: "matrix option"
  vector_db_initialized :: bool
  cache_file :: "cache option"

definition initial_state :: server_state where
  "initial_state =
     \<lparr>encoder_loaded = False, documents = [], embeddings = None,
      vector_db_initialized = False, cache_file = None\<rparr>"

text \<open>
  The sentence-transformers library is outside the program: \<open>load_model\<close> is the outcome of
  \<open>SentenceTransformer(EMBEDDING_MODEL)\<close> and \<open>encode texts\<close> that of \<open>model.encode(texts)\<close>.
\<close>

record embedder =
  load_model :: "error + unit"
  encode :: "string list \<Rightarrow> error + matrix"

definition EMBEDDING_MODEL :: string where
  "EMBEDDING_MODEL = ''sentence-transformers/all-MiniLM-L6-v2''"

definition load_embedding_model :: "embedder \<Rightarrow> server_state \<Rightarrow> error + server_state" where
  "load_embedding_model e s =
     (if encoder_loaded s then Inr s
      else case load_model e of
             Inl err \<Rightarrow> Inl err
           | Inr u \<Rightarrow> Inr (s\<lparr>encoder_loaded := True\<rparr>))"

definition norm2 :: "vec \<Rightarrow> real" where
  "norm2 v = sqrt (sum_list (map (\<lambda>x. x * x) v))"

definition normalize :: "vec \<Rightarrow> vec" where
  "normalize v = map (\<lambda>x. x / norm2 v) v"

text \<open>\<open>embeddings / np.linalg.norm(embeddings, axis=1, keepdims=True)\<close>.\<close>

definition normalize_rows :: "matrix \<Rightarrow> error + matrix" where
  "normalize_rows m = (if m = [] then Inl ValueError else Inr (map normalize m))"

definition save_vector_db_cache :: "string \<Rightarrow> server_state \<Rightarrow> server_state" where
  "save_vector_db_cache now s =
     s\<lparr>cache_file :=
         Some \<lparr>cache_documents = documents s, cache_embeddings = embeddings s,
               cache_timestamp = now, cache_model = EMBEDDING_MODEL\<rparr>\<rparr>"

subsection \<open>Rebuild\<close>

text \<open>
  An entry of the knowledge-base directory: its name, whether it is a regular file, and what
  the reader for its format (PyPDF2, python-docx or \<open>open(...).read()\<close>) yields.
\<close>

record kb_file =
  file_name :: string
  is_file :: bool
  extracted :: "error + string"

text \<open>\<open>Path.suffix\<close>: the name from its last dot on, unless that dot is first or last.\<close>

definition path_suffix :: "string \<Rightarrow> string" where
  "path_suffix name =
     (if CHR ''.'' \<in> set name then
        (let i = length name - length (takeWhile (\<lambda>c. c \<noteq> CHR ''.'') (rev name)) - 1
         in if 0 < i \<and> i < length name - 1 then drop i name else [])
      else [])"

definition extract_text_from_file :: "kb_file \<Rightarrow> error + string" where
  "extract_text_from_file f =
     (let ext = lower (path_suffix (file_name f))
      in if ext = ''.pdf'' \<or> ext = ''.docx'' \<or> ext = ''.txt'' then extracted f
         else Inl (Exc (''Unsupported file format: '' @ ext)))"

text \<open>
  The loop over the files, with \<open>documents\<close> and \<open>all_texts\<close> as accumulators. A file
  whose extraction raises is skipped. The result is \<open>None\<close> if \<open>chunk_text\<close> does not return.
\<close>

fun process_files ::
  "kb_file list \<Rightarrow> chunk_doc list \<Rightarrow> string list \<Rightarrow> (chunk_doc list \<times> string list) option" where
  "process_files [] docs all_texts = Some (docs, all_texts)"
| "process_files (f # fs) docs all_texts =
     (case extract_text_from_file f of
        Inl e \<Rightarrow> process_files fs docs all_texts
      | Inr text \<Rightarrow>
          (case chunk_text text CHUNK_SIZE CHUNK_OVERLAP of
             None \<Rightarrow> None
           | Some chunks \<Rightarrow>
               process_files fs
                 (docs @ map (\<lambda>(i, chunk).
                          \<lparr>content = chunk, source = file_name f, chunkIndex = i,
                           totalChunks = length chunks\<rparr>) (enumerate 0 chunks))
                 (all_texts @ chunks)))"

definition failure :: "error \<Rightarrow> response" where
  "failure e = \<lparr>status = 500, body = [(''success'', JBool False), (''error'', JErr e)]\<rparr>"

text \<open>
  \<open>update_vector_db\<close>: \<open>kb\<close> is the listing of the knowledge-base directory and \<open>now k\<close> the
  \<open>k\<close>-th reading of the clock. The result is the response and the state the handler
  leaves; \<open>None\<close> is a handler that does not return. Failures of the file system (listing
  the directory, writing the cache) are not modelled.
\<close>

definition update_vector_db ::
  "embedder \<Rightarrow> (nat \<Rightarrow> string) \<Rightarrow> kb_file list \<Rightarrow> server_state
     \<Rightarrow> (response \<times> server_state) option" where
  "update_vector_db e now kb s =
     (let files = filter (\<lambda>f. is_file f
                    \<and> lower (path_suffix (file_name f)) \<in> set [''.pdf'', ''.txt'', ''.docx'']) kb
      in if files = [] then
           Some (\<lparr>status = 200,
                  body = [(''success'', JBool True), (''message'', JStr ''No files to process''),
                          (''documents_count'', JNum 0)]\<rparr>,
                 save_vector_db_cache (now 0)
                   (s\<lparr>documents := [], embeddings := None, vector_db_initialized := False\<rparr>))
         else
           (case load_embedding_model e s of
              Inl err \<Rightarrow> Some (failure err, s)
            | Inr s1 \<Rightarrow>
                (case process_files files [] [] of
                   None \<Rightarrow> None
                 | Some (docs, all_texts) \<Rightarrow>
                     (let s2 = s1\<lparr>documents := docs\<rparr>
                      in case encode e all_texts of
                           Inl err \<Rightarrow> Some (failure err, s2)
                         | Inr m \<Rightarrow>
                             (let s3 = s2\<lparr>embeddings := Some m\<rparr>
                              in case normalize_rows m of
                                   Inl err \<Rightarrow> Some (failure err, s3)
                                 | Inr unit_rows \<Rightarrow>
                                     (let s4 = s3\<lparr>embeddings := Some unit_rows\<rparr>;
                                          s5 = save_vector_db_cache (now 0) s4;
                                          s6 = s5\<lparr>vector_db_initialized := True\<rparr>
                                      in Some (\<lparr>status = 200,
                                                 body = [(''success'', JBool True),
                                                         (''message'',
                                                          JStr ''Vector database updated successfully''),
                                                         (''documents_count'',
                                                          JNum (real (length docs))),
                                                         (''timestamp'', JStr (now 1))]\<rparr>,
                                               s6)))))))"

subsection \<open>Retrieval\<close>

text \<open>
  \<open>np.dot(embeddings, query_embedding)\<close>: one dot product per row. It raises if there is no
  matrix, if the array is the empty one, or if a row and the query differ in length.
\<close>

definition dot :: "vec \<Rightarrow> vec \<Rightarrow> real" where
  "dot u v = sum_list (map (\<lambda>(x, y). x * y) (zip u v))"

definition np_dot :: "matrix option \<Rightarrow> vec \<Rightarrow> error + real list" where
  "np_dot m v =
     (case m of
        None \<Rightarrow> Inl TypeError
      | Some rows \<Rightarrow>
          if rows \<noteq> [] \<and> list_all (\<lambda>row. length row = length v) rows
          then Inr (map (\<lambda>row. dot row v) rows) else Inl ValueError)"

text \<open>
  \<open>np.argsort\<close> with its default kind, quicksort: the indices in the order of their values,
  ascending. numpy sorts an array of at most 16 elements by insertion, which keeps equal
  values in index order. How it partitions a longer array is numpy's affair: that sort is
  the parameter \<open>partition_sort\<close>, of which \<open>index_sort\<close> says what is known, that it
  returns the indices, each once, in an order in which the values ascend.
\<close>

definition index_sort :: "(real list \<Rightarrow> nat list) \<Rightarrow> bool" where
  "index_sort partition_sort =
     (\<forall>xs. set (partition_sort xs) = {..< length xs} \<and> distinct (partition_sort xs)
           \<and> sorted (map (\<lambda>i. xs ! i) (partition_sort xs)))"

definition argsort :: "(real list \<Rightarrow> nat list) \<Rightarrow> real list \<Rightarrow> nat list" where
  "argsort partition_sort xs =
     (if length xs \<le> 16 then sort_key (\<lambda>i. xs ! i) [0 ..< length xs] else partition_sort xs)"

text \<open>
  The retrieval step of \<open>query\<close>: \<open>top_indices\<close> with \<open>top_scores\<close>, as the pairs
  \<open>(idx, top_scores[i])\<close> that \<open>relevant_docs\<close> is built from.
\<close>

definition retrieve :: "(real list \<Rightarrow> nat list) \<Rightarrow> real list \<Rightarrow> (nat \<times> real) list" where
  "retrieve partition_sort similarities =
     (let top_indices = take TOP_K (rev (argsort partition_sort similarities));
          top_scores = map (\<lambda>i. similarities ! i) top_indices;
          relevant_indices = take (min TOP_K (length top_indices)) top_indices
      in zip relevant_indices top_scores)"

subsection \<open>Query\<close>

record query_request =
  q_query :: field
  q_fieldContext :: field
  q_partialInput :: field

definition query_error :: "error \<Rightarrow> response" where
  "query_error e = \<lparr>status = 500, body = [(''error'', JErr e), (''answer'', JStr ''Not in DB'')]\<rparr>"

definition personal_words :: "string list" where
  "personal_words = [''name'', ''email'', ''phone'', ''mobile'', ''contact'', ''address'']"

text \<open>
  \<open>query\<close>: the response and the state the handler leaves (it may load the encoder). An
  exception raised anywhere below the two first tests is caught by the handler and answered
  with \<open>query_error\<close>.
\<close>

definition query ::
  "ollama \<Rightarrow> embedder \<Rightarrow> (real list \<Rightarrow> nat list) \<Rightarrow> query_request \<Rightarrow> server_state
     \<Rightarrow> response \<times> server_state" where
  "query llm e partition_sort req s =
     (let query_text = text_of (get_key (q_query req));
          field_context = get_field (q_fieldContext req) [];
          partial_input = get_field (q_partialInput req) []
      in if query_text = [] then
           (\<lparr>status = 400, body = [(''error'', JStr ''Query is required'')]\<rparr>, s)
         else if \<not> vector_db_initialized s then
           (\<lparr>status = 200,
             body = [(''answer'', JStr ''Not in DB''),
                     (''error'', JStr ''Vector database not initialized'')]\<rparr>, s)
         else if any_in personal_words (lower query_text @ '' '' @ lower (text_of field_context))
                 \<and> documents s \<noteq> [] then
           (let context = join (nl @ nl) (map content (take 3 (documents s)))
            in case generate_answer llm query_text context field_context partial_input of
                 Inl err \<Rightarrow> (query_error err, s)
               | Inr answer \<Rightarrow>
                   (\<lparr>status = 200,
                     body = [(''answer'', JStr answer), (''source'', JStr ''header-extraction''),
                             (''confidence'', JNum 1)]\<rparr>, s))
         else
           (case load_embedding_model e s of
              Inl err \<Rightarrow> (query_error err, s)
            | Inr s1 \<Rightarrow>
                (let enhanced_query =
                       (if text_of field_context \<noteq> []
                        then text_of field_context @ '': '' @ query_text
                        else query_text)
                 in case encode e [enhanced_query] of
                      Inl err \<Rightarrow> (query_error err, s1)
                    | Inr [] \<Rightarrow> (query_error IndexError, s1)
                    | Inr (row # rows) \<Rightarrow>
                        (case np_dot (embeddings s1) (normalize row) of
                           Inl err \<Rightarrow> (query_error err, s1)
                         | Inr similarities \<Rightarrow>
                             (let relevant = retrieve partition_sort similarities
                              in if relevant = [] then
                                   (\<lparr>status = 200, body = [(''answer'', JStr ''Not in DB'')]\<rparr>, s1)
                                 else if list_ex (\<lambda>(idx, score). length (documents s1) \<le> idx) relevant
                                 then (query_error IndexError, s1)
                                 else
                                   (let context =
                                          join (nl @ nl)
                                            (map (\<lambda>(idx, score). content (documents s1 ! idx)) relevant)
                                    in case generate_answer llm query_text context field_context
                                              partial_input of
                                         Inl err \<Rightarrow> (query_error err, s1)
                                       | Inr answer \<Rightarrow>
                                           (\<lparr>status = 200,
                                             body = [(''answer'', JStr answer),
                                                     (''source'',
                                                      JStr (if llama_listed llm 1 then ''llama-local''
                                                            else ''simple-extraction'')),
                                                     (''confidence'', JNum (snd (hd relevant)))]\<rparr>,
                                            s1)))))))"

section \<open>Collaborators and states of the examples\<close>




definition encoder_missing :: embedder where
  "encoder_missing =
     \<lparr>load_model = Inl (Exc ''SentenceTransformer is not defined''),
      encode = (\<lambda>texts. Inl (Exc ''no model''))\<rparr>"

definition encoder_failing :: embedder where
  "encoder_failing =
     \<lparr>load_model = Inr (), encode = (\<lambda>texts. Inl (Exc ''out of memory''))\<rparr>"

definition encoder_unit :: embedder where
  "encoder_unit = \<lparr>load_model = Inr (), encode = (\<lambda>texts. Inr (map (\<lambda>t. [1]) texts))\<rparr>"

definition clock :: "nat \<Rightarrow> string" where
  "clock k = ''2024-01-01T00:00:00''"

definition sky_doc :: chunk_doc where
  "sky_doc =
     \<lparr>content = ''The sky is blue'', source = ''facts.txt'', chunkIndex = 0, totalChunks = 1\<rparr>"

definition jane_doc :: chunk_doc where
  "jane_doc =
     \<lparr>content = ''Jane Doe'', source = ''resume.txt'', chunkIndex = 0, totalChunks = 1\<rparr>"

definition resume_file :: kb_file where
  "resume_file = \<lparr>file_name = ''resume.txt'', is_file = True, extracted = Inr ''Jane Doe''\<rparr>"

definition blank_file :: kb_file where
  "blank_file = \<lparr>file_name = ''blank.txt'', is_file = True, extracted = Inr ''   ''\<rparr>"

definition indexed_state :: server_state where
  "indexed_state =
     \<lparr>encoder_loaded = True, documents = [sky_doc], embeddings = Some [[1]],
      vector_db_initialized = True, cache_file = None\<rparr>"


definition empty_index_state :: server_state where
  "empty_index_state =
     \<lparr>encoder_loaded = True, documents = [], embeddings = Some [],
      vector_db_initialized = True, cache_file = None\<rparr>"







definition rule_request :: save_request where
  "rule_request =
     \<lparr>req_fieldContext = Str ''Notes'', req_answer = Str separator,
      req_partialInput = Missing, req_timestamp = Str ''2024-01-01T00:00:00''\<rparr>"

definition cr_request :: save_request where
  "cr_request =
     \<lparr>req_fieldContext = Str ''Notes'', req_answer = Str [CHR ''a'', CHR 0x0D, CHR ''b''],
      req_partialInput = Missing, req_timestamp = Str ''2024-01-01T00:00:00''\<rparr>"

definition saved_response :: response where
  "saved_response =
     \<lparr>status = 200,
      body = [(''success'', JBool True), (''message'', JStr ''Accepted answer saved'')]\<rparr>"

section \<open>Chunking: termination and the windows\<close>

lemma chunk_loop_returns_imp:
  assumes "chunk_loop text sz ov start chunks = Some y"
  shows "sz \<le> ov \<longrightarrow> int (length text) \<le> start"
proof (rule chunk_loop.raw_induct
    [where P = "\<lambda>t sz ov start chunks y. sz \<le> ov \<longrightarrow> int (length t) \<le> start", OF _ assms])
  fix f t sz ov start chunks y
  assume IH: "\<And>t sz ov start chunks y. f t sz ov start chunks = Some y \<Longrightarrow>
                 sz \<le> ov \<longrightarrow> int (length t) \<le> start"
    and eq: "(if start < int (length t) then
               (let stop = min (start + sz) (int (length t));
                    chunk = strip (py_slice t start stop)
                in f t sz ov (start + (sz - ov))
                     (if chunk \<noteq> [] then chunks @ [chunk] else chunks))
             else Some chunks) = Some y"
  show "sz \<le> ov \<longrightarrow> int (length t) \<le> start"
  proof (intro impI, rule ccontr)
    assume le: "sz \<le> ov" and "\<not> int (length t) \<le> start"
    then have lt: "start < int (length t)" by simp
    with eq obtain chunks' where "f t sz ov (start + (sz - ov)) chunks' = Some y"
      by (simp add: Let_def split: if_splits)
    from IH[OF this] le have "int (length t) \<le> start + (sz - ov)" by simp
    with le lt show False by simp
  qed
qed

lemma chunk_loop_diverges:
  assumes "sz \<le> ov" and "start < int (length text)"
  shows "chunk_loop text sz ov start chunks = None"
proof (cases "chunk_loop text sz ov start chunks")
  case None
  then show ?thesis .
next
  case (Some y)
  from chunk_loop_returns_imp[OF this] assms show ?thesis by simp
qed

lemma ceil_div_less_iff:
  fixes k n step :: nat
  assumes "0 < step"
  shows "k < (n + step - 1) div step \<longleftrightarrow> k * step < n"
proof -
  have "k < (n + step - 1) div step \<longleftrightarrow> Suc k \<le> (n + step - 1) div step" by auto
  also have "\<dots> \<longleftrightarrow> Suc k * step \<le> n + step - 1"
    using assms by (simp only: less_eq_div_iff_mult_less_eq)
  also have "\<dots> \<longleftrightarrow> k * step < n" using assms by auto
  finally show ?thesis .
qed

lemma py_slice_window:
  assumes "start < length text" and "0 < sz"
  shows "py_slice text (int start) (min (int start + int sz) (int (length text)))
           = take sz (drop start text)"
proof -
  have a: "py_index (length text) (int start) = start"
    using assms by (simp add: py_index_def)
  have b: "py_index (length text) (min (int start + int sz) (int (length text)))
             = min (start + sz) (length text)"
    by (auto simp: py_index_def min_def nat_add_distrib)
  show ?thesis
    by (simp only: py_slice_def Let_def a b) (simp add: min_def)
qed

lemma chunk_loop_windows:
  fixes sz ov :: nat
  assumes "ov < sz" and "0 < sz"
  shows "k \<le> (length text + (sz - ov) - 1) div (sz - ov) \<Longrightarrow>
         chunk_loop text (int sz) (int ov) (int (k * (sz - ov))) chunks
           = Some (chunks @ filter (\<lambda>c. c \<noteq> [])
                (map (\<lambda>start. strip (take sz (drop start text)))
                   (map (\<lambda>j. j * (sz - ov)) [k ..< (length text + (sz - ov) - 1) div (sz - ov)])))"
proof (induction "(length text + (sz - ov) - 1) div (sz - ov) - k" arbitrary: k chunks)
  case 0
  then have "k = (length text + (sz - ov) - 1) div (sz - ov)" by simp
  then have "\<not> k * (sz - ov) < length text"
    using ceil_div_less_iff[of "sz - ov" k "length text"] assms by simp
  then have "\<not> int (k * (sz - ov)) < int (length text)" by (metis of_nat_less_iff)
  then show ?case
    using \<open>k = _\<close> by (subst chunk_loop.simps) (simp del: of_nat_mult)
next
  case (Suc d)
  let ?n = "(length text + (sz - ov) - 1) div (sz - ov)"
  from Suc(2) have kn: "k < ?n" by simp
  then have lt: "k * (sz - ov) < length text"
    using ceil_div_less_iff[of "sz - ov" k "length text"] assms by simp
  have next_start: "int (k * (sz - ov)) + (int sz - int ov) = int (Suc k * (sz - ov))"
    using assms by (simp add: of_nat_diff)
  have upt: "[k ..< ?n] = k # [Suc k ..< ?n]"
    using kn by (simp add: upt_conv_Cons)
  have d: "d = ?n - Suc k" using Suc(2) by simp
  have le: "Suc k \<le> ?n" using kn by simp
  note IH = Suc(1)[OF d le]
  show ?case
    apply (subst chunk_loop.simps)
    apply (simp only: next_start)
    using lt assms py_slice_window[OF lt assms(2)] IH upt
    apply (simp add: Let_def del: of_nat_mult of_nat_add mult_Suc)
    done
qed

lemma chunk_text_spec_chunks:
  assumes "0 < overlap" and "overlap < chunk_size"
  shows "chunk_text t chunk_size overlap = Some (spec_chunks t (nat chunk_size) (nat overlap))"
proof -
  have lt: "nat overlap < nat chunk_size" and pos: "0 < nat chunk_size"
    using assms by simp_all
  have "chunk_loop t (int (nat chunk_size)) (int (nat overlap))
          (int (0 * (nat chunk_size - nat overlap))) []
        = Some ([] @ filter (\<lambda>c. c \<noteq> [])
            (map (\<lambda>start. strip (take (nat chunk_size) (drop start t)))
               (map (\<lambda>j. j * (nat chunk_size - nat overlap))
                  [0 ..< (length t + (nat chunk_size - nat overlap) - 1)
                           div (nat chunk_size - nat overlap)])))"
    by (rule chunk_loop_windows[OF lt pos]) simp
  then show ?thesis
    using assms by (simp add: chunk_text_def spec_chunks_def window_starts_def)
qed

lemma window_starts_short:
  assumes "0 < n" and "n \<le> step"
  shows "window_starts n step = [0]"
proof -
  have "(n + step - 1) div step = 1"
  proof -
    have "step \<le> n + step - 1" and "n + step - 1 < 2 * step"
      using assms by simp_all
    then show ?thesis
      by (metis One_nat_def Suc_1 div_nat_eqI mult.commute mult_Suc_right mult_2 nat_mult_1_right plus_1_eq_Suc)
  qed
  then show ?thesis
    by (simp add: window_starts_def)
qed

text \<open>
  C10. \<open>chunk_text\<close> returns for every text when \<open>0 < overlap < chunk_size\<close>; when
  \<open>overlap \<ge> chunk_size\<close> it returns for no text but the empty one: the loop runs forever,
  and no parameter combination is rejected (the only results are a list of chunks and
  not returning).
\<close>

theorem chunk_text_returns_iff_progress:
  "(0 < overlap \<and> overlap < chunk_size \<longrightarrow> (\<exists>chunks. chunk_text t chunk_size overlap = Some chunks))
   \<and> (chunk_size \<le> overlap \<and> t \<noteq> [] \<longrightarrow> chunk_text t chunk_size overlap = None)"
proof (intro conjI impI)
  assume "0 < overlap \<and> overlap < chunk_size"
  then show "\<exists>chunks. chunk_text t chunk_size overlap = Some chunks"
    by (simp add: chunk_text_spec_chunks)
next
  assume "chunk_size \<le> overlap \<and> t \<noteq> []"
  then show "chunk_text t chunk_size overlap = None"
    unfolding chunk_text_def by (intro chunk_loop_diverges) simp_all
qed

theorem chunk_text_returns_iff_progress_witness:
  "(0 < (200::int) \<and> (200::int) < 1000 \<and> (\<exists>chunks. chunk_text ''resume'' 1000 200 = Some chunks))
   \<and> ((5::int) \<le> 5 \<and> ''resume'' \<noteq> [] \<and> chunk_text ''resume'' 5 5 = None)"
  using chunk_text_returns_iff_progress [of 200 1000 "''resume''"]
    chunk_text_returns_iff_progress [of 5 5 "''resume''"]
  by simp

text \<open>
  C7, as amended. For \<open>0 < overlap < chunk_size\<close>, \<open>chunk_text\<close> returns the windows
  \<open>text[start : start + chunk_size]\<close> at the starts \<open>0, step, 2 * step, ...\<close> below the text
  length (\<open>step = chunk_size - overlap\<close>), each trimmed and dropped if empty; the empty text
  gives no chunk; a non-empty text of length at most \<open>chunk_size - overlap\<close> gives exactly
  one chunk, the trimmed text, or none if it is all white space.
\<close>

theorem chunk_text_windows:
  assumes "0 < overlap" and "overlap < chunk_size"
  shows "chunk_text t chunk_size overlap = Some (spec_chunks t (nat chunk_size) (nat overlap))
         \<and> chunk_text [] chunk_size overlap = Some []
         \<and> (t \<noteq> [] \<and> int (length t) \<le> chunk_size - overlap \<longrightarrow>
              chunk_text t chunk_size overlap = Some (if strip t = [] then [] else [strip t]))"
proof (intro conjI impI)
  show "chunk_text t chunk_size overlap = Some (spec_chunks t (nat chunk_size) (nat overlap))"
    using assms by (rule chunk_text_spec_chunks)
  show "chunk_text [] chunk_size overlap = Some []"
    by (simp add: chunk_text_def chunk_loop.simps)
  assume short: "t \<noteq> [] \<and> int (length t) \<le> chunk_size - overlap"
  then have "0 < length t"
    by simp
  moreover have "length t \<le> nat chunk_size - nat overlap"
    using short assms by arith
  ultimately have "window_starts (length t) (nat chunk_size - nat overlap) = [0]"
    by (rule window_starts_short)
  moreover have "length t \<le> nat chunk_size"
    using short assms by arith
  ultimately have "spec_chunks t (nat chunk_size) (nat overlap)
                     = (if strip t = [] then [] else [strip t])"
    by (simp add: spec_chunks_def)
  then show "chunk_text t chunk_size overlap = Some (if strip t = [] then [] else [strip t])"
    using assms by (simp add: chunk_text_spec_chunks)
qed

theorem chunk_text_windows_witness:
  "0 < (2::int) \<and> (2::int) < 5
   \<and> chunk_text ''ab  cdefg'' 5 2 = Some [''ab  c'', ''cdef'', ''efg'']
   \<and> chunk_text [] 5 2 = Some []
   \<and> ''ab '' \<noteq> [] \<and> int (length ''ab '') \<le> 5 - 2 \<and> chunk_text ''ab '' 5 2 = Some [''ab'']"
proof -
  have h1: "0 < (2::int)" and h2: "(2::int) < 5"
    by simp_all
  have w: "spec_chunks ''ab  cdefg'' (nat 5) (nat 2) = [''ab  c'', ''cdef'', ''efg'']"
    by code_simp
  have s: "(if strip ''ab '' = [] then [] else [strip ''ab '']) = [''ab'']"
    by code_simp
  have short: "''ab '' \<noteq> [] \<and> int (length ''ab '') \<le> 5 - 2"
    by simp
  note long_text = chunk_text_windows [OF h1 h2, of "''ab  cdefg''"]
  note short_text = chunk_text_windows [OF h1 h2, of "''ab ''"]
  have a: "chunk_text ''ab  cdefg'' 5 2 = Some [''ab  c'', ''cdef'', ''efg'']"
    using long_text [THEN conjunct1] by (simp only: w)
  have b: "chunk_text [] 5 2 = Some []"
    using long_text [THEN conjunct2, THEN conjunct1] .
  have c: "chunk_text ''ab '' 5 2 = Some [''ab'']"
    using short_text [THEN conjunct2, THEN conjunct2, rule_format, OF short] by (simp only: s)
  from h1 h2 a b c short show ?thesis
    by blast
qed

text \<open>
  C7 as stated fails: a text shorter than \<open>chunk_size\<close> but longer than
  \<open>chunk_size - overlap\<close> gives more than one chunk.
\<close>

theorem chunk_text_short_text_counterexample:
  "0 < (2::int) \<and> (2::int) < 3 \<and> ''ab'' \<noteq> [] \<and> int (length ''ab'') < 3
   \<and> chunk_text ''ab'' 3 2 = Some [''ab'', ''b'']"
  by code_simp

section \<open>Fallback extraction: which rule serves a query\<close>

lemma classify_Name_iff:
  "classify q field_context = Name \<longleftrightarrow> any_in name_words (lower q)"
  by (simp add: classify_def Let_def)




section \<open>The accepted-answer log: a pair that is saved twice\<close>

lemma save_accepted_answer_plain_pair:
  "save_accepted_answer (clock 0)
   \<lparr>req_fieldContext = Str ''Notes'', req_answer = Str ''blue'',
      req_partialInput = Missing, req_timestamp = Str ''T''\<rparr>
        (Some (entry_block ''Notes'' [] ''blue'' ''T''))
     = (\<lparr>status = 200,
      body = [(''success'', JBool True), (''message'', JStr ''Already saved'')]\<rparr>, Some (entry_block ''Notes'' [] ''blue'' ''T''))"
  by code_simp

text \<open>
  C9. The handler's comment says that it checks whether this exact pair of field and value
  already exists, yet the same pair is appended twice when the answer holds the
  60-character rule or a carriage return: the split at the rule cuts the answer out of its
  entry, and the log read back in text mode holds a line feed where the carriage return
  was written. Each of the two saves answers \<open>Accepted answer saved\<close>, and the log ends
  with two blocks of the pair.
\<close>

theorem save_accepted_answer_appends_twice:
  "save_accepted_answer (clock 0) rule_request None
     = (saved_response, Some (entry_block ''Notes'' [] separator ''2024-01-01T00:00:00''))
   \<and> save_accepted_answer (clock 0) rule_request
        (Some (entry_block ''Notes'' [] separator ''2024-01-01T00:00:00''))
     = (saved_response,
        Some (entry_block ''Notes'' [] separator ''2024-01-01T00:00:00''
              @ entry_block ''Notes'' [] separator ''2024-01-01T00:00:00''))
   \<and> save_accepted_answer (clock 0) cr_request None
     = (saved_response,
        Some (entry_block ''Notes'' [] [CHR ''a'', CHR 0x0D, CHR ''b''] ''2024-01-01T00:00:00''))
   \<and> save_accepted_answer (clock 0) cr_request
        (Some (entry_block ''Notes'' [] [CHR ''a'', CHR 0x0D, CHR ''b''] ''2024-01-01T00:00:00''))
     = (saved_response,
        Some (entry_block ''Notes'' [] [CHR ''a'', CHR 0x0D, CHR ''b''] ''2024-01-01T00:00:00''
              @ entry_block ''Notes'' [] [CHR ''a'', CHR 0x0D, CHR ''b''] ''2024-01-01T00:00:00''))"
  by code_simp


section \<open>Retrieval: the order of the results\<close>


lemma argsort_set:
  assumes "index_sort partition_sort"
  shows "set (argsort partition_sort xs) = {..<length xs}"
  using assms by (auto simp: argsort_def index_sort_def)




lemma retrieve_eq:
  "retrieve partition_sort xs
     = map (\<lambda>i. (i, xs ! i)) (take TOP_K (rev (argsort partition_sort xs)))"
  by (simp add: retrieve_def Let_def zip_map2 zip_same_conv_map min_def)









section \<open>Rebuild: auxiliary facts\<close>

lemma load_embedding_model_fields:
  assumes "load_embedding_model e s = Inr s1"
  shows "s1 = s\<lparr>encoder_loaded := True\<rparr>"
  using assms by (auto simp: load_embedding_model_def split: if_splits sum.splits)


lemma load_embedding_model_cases:
  "load_embedding_model e s = Inr (s\<lparr>encoder_loaded := True\<rparr>)
   \<or> (\<not> encoder_loaded s \<and> (\<exists>err. load_model e = Inl err \<and> load_embedding_model e s = Inl err))"
  by (cases "load_model e") (auto simp: load_embedding_model_def)

lemma chunk_text_default_returns:
  "\<exists>chunks. chunk_text t CHUNK_SIZE CHUNK_OVERLAP = Some chunks"
  by (simp add: chunk_text_spec_chunks CHUNK_SIZE_def CHUNK_OVERLAP_def)

lemma process_files_returns:
  "\<exists>docs all_texts. process_files fs docs0 texts0 = Some (docs, all_texts)"
proof (induction fs arbitrary: docs0 texts0)
  case Nil
  then show ?case by simp
next
  case (Cons f fs)
  show ?case
  proof (cases "extract_text_from_file f")
    case (Inl err)
    with Cons show ?thesis by simp
  next
    case (Inr t)
    from chunk_text_default_returns obtain chunks
      where "chunk_text t CHUNK_SIZE CHUNK_OVERLAP = Some chunks"
      by blast
    with Inr Cons show ?thesis by simp
  qed
qed


lemma update_load_failure_path:
  assumes "filter (\<lambda>f. is_file f
              \<and> lower (path_suffix (file_name f)) \<in> set [''.pdf'', ''.txt'', ''.docx'']) kb = files"
    and "files \<noteq> []"
    and "load_embedding_model e s = Inl err"
  shows "update_vector_db e now kb s = Some (failure err, s)"
  unfolding update_vector_db_def Let_def
  by (simp only: assms if_False sum.case simp_thms)

lemma update_encode_failure_path:
  assumes "filter (\<lambda>f. is_file f
              \<and> lower (path_suffix (file_name f)) \<in> set [''.pdf'', ''.txt'', ''.docx'']) kb = files"
    and "files \<noteq> []"
    and "load_embedding_model e s = Inr s1"
    and "process_files files [] [] = Some (docs, all_texts)"
    and "encode e all_texts = Inl err"
  shows "update_vector_db e now kb s = Some (failure err, s1\<lparr>documents := docs\<rparr>)"
  unfolding update_vector_db_def Let_def
  by (simp only: assms if_False sum.case option.case prod.case simp_thms)

lemma update_normalize_failure_path:
  assumes "filter (\<lambda>f. is_file f
              \<and> lower (path_suffix (file_name f)) \<in> set [''.pdf'', ''.txt'', ''.docx'']) kb = files"
    and "files \<noteq> []"
    and "load_embedding_model e s = Inr s1"
    and "process_files files [] [] = Some (docs, all_texts)"
    and "encode e all_texts = Inr []"
  shows "update_vector_db e now kb s
           = Some (failure ValueError, s1\<lparr>documents := docs, embeddings := Some []\<rparr>)"
proof -
  have n: "normalize_rows [] = Inl ValueError"
    by (simp add: normalize_rows_def)
  show ?thesis
    unfolding update_vector_db_def Let_def
    by (simp only: assms n if_False sum.case option.case prod.case simp_thms)
qed

lemma update_success_path:
  assumes "filter (\<lambda>f. is_file f
              \<and> lower (path_suffix (file_name f)) \<in> set [''.pdf'', ''.txt'', ''.docx'']) kb = files"
    and "files \<noteq> []"
    and "load_embedding_model e s = Inr s1"
    and "process_files files [] [] = Some (docs, all_texts)"
    and "encode e all_texts = Inr m" and "m \<noteq> []"
  shows "update_vector_db e now kb s =
           Some (\<lparr>status = 200,
                  body = [(''success'', JBool True),
                          (''message'', JStr ''Vector database updated successfully''),
                          (''documents_count'', JNum (real (length docs))),
                          (''timestamp'', JStr (now 1))]\<rparr>,
                 (save_vector_db_cache (now 0)
                    (s1\<lparr>documents := docs, embeddings := Some (map normalize m)\<rparr>))
                 \<lparr>vector_db_initialized := True\<rparr>)"
proof -
  have n: "normalize_rows m = Inr (map normalize m)"
    using assms(6) by (simp add: normalize_rows_def)
  have "update_vector_db e now kb s =
           Some (\<lparr>status = 200,
                  body = [(''success'', JBool True),
                          (''message'', JStr ''Vector database updated successfully''),
                          (''documents_count'', JNum (real (length docs))),
                          (''timestamp'', JStr (now 1))]\<rparr>,
                 (save_vector_db_cache (now 0)
                    (s1\<lparr>documents := docs, embeddings := Some m,
                        embeddings := Some (map normalize m)\<rparr>))
                 \<lparr>vector_db_initialized := True\<rparr>)"
    unfolding update_vector_db_def Let_def
    by (simp only: assms(1-5) n if_False sum.case option.case prod.case simp_thms)
  then show ?thesis
    by simp
qed

lemma resume_file_supported:
  "filter (\<lambda>f. is_file f
      \<and> lower (path_suffix (file_name f)) \<in> set [''.pdf'', ''.txt'', ''.docx'']) [resume_file]
   = [resume_file]"
  by code_simp

lemma resume_file_chunks:
  "process_files [resume_file] [] [] = Some ([jane_doc], [''Jane Doe''])"
  by code_simp


section \<open>A rebuild whose embedding step fails\<close>

text \<open>
  C2, as amended. If the embedding step of a rebuild fails, the rebuild answers with an
  error (status 500), nothing is persisted, and the embeddings matrix and the initialised
  flag are what they were before the rebuild started. The documents list is what it was
  before when the embedding model cannot be loaded; when \<open>encode\<close> raises, the documents
  list has already been replaced by the chunks of the files being indexed.
\<close>

theorem update_vector_db_embedding_failure:
  assumes "filter (\<lambda>f. is_file f
              \<and> lower (path_suffix (file_name f)) \<in> set [''.pdf'', ''.txt'', ''.docx'']) kb = files"
    and "files \<noteq> []"
  shows "(load_embedding_model e s = Inl err \<longrightarrow>
            update_vector_db e now kb s = Some (failure err, s))
         \<and> (load_embedding_model e s = Inr s1 \<and> process_files files [] [] = Some (docs, all_texts)
              \<and> encode e all_texts = Inl err \<longrightarrow>
                update_vector_db e now kb s
                  = Some (failure err, s\<lparr>encoder_loaded := True, documents := docs\<rparr>))
         \<and> (\<exists>docs all_texts. process_files files [] [] = Some (docs, all_texts))"
proof (intro conjI impI)
  assume "load_embedding_model e s = Inl err"
  with assms show "update_vector_db e now kb s = Some (failure err, s)"
    by (rule update_load_failure_path)
next
  assume a: "load_embedding_model e s = Inr s1 \<and> process_files files [] [] = Some (docs, all_texts)
              \<and> encode e all_texts = Inl err"
  then have load: "load_embedding_model e s = Inr s1"
    and chunks: "process_files files [] [] = Some (docs, all_texts)"
    and enc: "encode e all_texts = Inl err"
    by simp_all
  from assms load chunks enc
  have "update_vector_db e now kb s = Some (failure err, s1\<lparr>documents := docs\<rparr>)"
    by (rule update_encode_failure_path)
  moreover have "s1 = s\<lparr>encoder_loaded := True\<rparr>"
    using load by (rule load_embedding_model_fields)
  ultimately show "update_vector_db e now kb s
                     = Some (failure err, s\<lparr>encoder_loaded := True, documents := docs\<rparr>)"
    by simp
next
  show "\<exists>docs all_texts. process_files files [] [] = Some (docs, all_texts)"
    by (rule process_files_returns)
qed

theorem update_vector_db_embedding_failure_witness:
  "filter (\<lambda>f. is_file f
      \<and> lower (path_suffix (file_name f)) \<in> set [''.pdf'', ''.txt'', ''.docx'']) [resume_file]
     = [resume_file]
   \<and> [resume_file] \<noteq> []
   \<and> load_embedding_model encoder_missing initial_state
       = Inl (Exc ''SentenceTransformer is not defined'')
   \<and> update_vector_db encoder_missing clock [resume_file] initial_state
       = Some (failure (Exc ''SentenceTransformer is not defined''), initial_state)
   \<and> load_embedding_model encoder_failing indexed_state = Inr indexed_state
   \<and> process_files [resume_file] [] [] = Some ([jane_doc], [''Jane Doe''])
   \<and> encode encoder_failing [''Jane Doe''] = Inl (Exc ''out of memory'')
   \<and> update_vector_db encoder_failing clock [resume_file] indexed_state
       = Some (failure (Exc ''out of memory''),
               indexed_state\<lparr>encoder_loaded := True, documents := [jane_doc]\<rparr>)"
proof -
  have nonempty: "[resume_file] \<noteq> []"
    by simp
  have missing: "load_embedding_model encoder_missing initial_state
                   = Inl (Exc ''SentenceTransformer is not defined'')"
    by (simp add: load_embedding_model_def encoder_missing_def initial_state_def)
  have load: "load_embedding_model encoder_failing indexed_state = Inr indexed_state"
    by (simp add: load_embedding_model_def indexed_state_def)
  have enc: "encode encoder_failing [''Jane Doe''] = Inl (Exc ''out of memory'')"
    by (simp add: encoder_failing_def)
  note t = update_vector_db_embedding_failure [OF resume_file_supported nonempty]
  have a: "update_vector_db encoder_missing clock [resume_file] initial_state
             = Some (failure (Exc ''SentenceTransformer is not defined''), initial_state)"
    using t [THEN conjunct1, rule_format, OF missing] .
  have h: "load_embedding_model encoder_failing indexed_state = Inr indexed_state
           \<and> process_files [resume_file] [] [] = Some ([jane_doc], [''Jane Doe''])
           \<and> encode encoder_failing [''Jane Doe''] = Inl (Exc ''out of memory'')"
    using load resume_file_chunks enc by blast
  have b: "update_vector_db encoder_failing clock [resume_file] indexed_state
             = Some (failure (Exc ''out of memory''),
                     indexed_state\<lparr>encoder_loaded := True, documents := [jane_doc]\<rparr>)"
    using t [THEN conjunct2, THEN conjunct1, rule_format, OF h] .
  from resume_file_supported nonempty missing a load resume_file_chunks enc b show ?thesis
    by blast
qed

text \<open>
  C2 as stated fails: after a rebuild whose \<open>encode\<close> raises, queries see the chunks of the
  new file next to the matrix of the old one.
\<close>

theorem update_vector_db_not_atomic_counterexample:
  "documents indexed_state = [sky_doc] \<and> embeddings indexed_state = Some [[1]]
   \<and> update_vector_db encoder_failing clock [resume_file] indexed_state
       = Some (failure (Exc ''out of memory''),
               \<lparr>encoder_loaded = True, documents = [jane_doc], embeddings = Some [[1]],
                vector_db_initialized = True, cache_file = None\<rparr>)
   \<and> jane_doc \<noteq> sky_doc"
proof -
  have nonempty: "[resume_file] \<noteq> []"
    by simp
  have load: "load_embedding_model encoder_failing indexed_state = Inr indexed_state"
    by (simp add: load_embedding_model_def indexed_state_def)
  have enc: "encode encoder_failing [''Jane Doe''] = Inl (Exc ''out of memory'')"
    by (simp add: encoder_failing_def)
  have "update_vector_db encoder_failing clock [resume_file] indexed_state
          = Some (failure (Exc ''out of memory''), indexed_state\<lparr>documents := [jane_doc]\<rparr>)"
    using resume_file_supported nonempty load resume_file_chunks enc
    by (rule update_encode_failure_path)
  moreover have "indexed_state\<lparr>documents := [jane_doc]\<rparr>
                   = \<lparr>encoder_loaded = True, documents = [jane_doc], embeddings = Some [[1]],
                      vector_db_initialized = True, cache_file = None\<rparr>"
    by (simp add: indexed_state_def)
  moreover have "jane_doc \<noteq> sky_doc"
    by (simp add: jane_doc_def sky_doc_def)
  moreover have "documents indexed_state = [sky_doc]" and "embeddings indexed_state = Some [[1]]"
    by (simp_all add: indexed_state_def)
  ultimately show ?thesis
    by simp
qed


section \<open>The paths through query\<close>




lemma retrieve_indices:
  assumes kernel: "index_sort partition_sort"
    and "(i, score) \<in> set (retrieve partition_sort xs)"
  shows "i < length xs"
proof -
  from assms(2) have "i \<in> set (take TOP_K (rev (argsort partition_sort xs)))"
    by (auto simp: retrieve_eq)
  then have "i \<in> set (argsort partition_sort xs)"
    by (metis in_set_takeD set_rev)
  then show ?thesis
    by (simp add: argsort_set[OF kernel])
qed

lemma fallback_extraction_ignores_field_context:
  assumes "any_in name_words (lower q) \<or> any_in email_words (lower q)
           \<or> any_in phone_words (lower q)"
  shows "fallback_extraction q context field_context partial_input
           = fallback_extraction q context [] partial_input"
  using assms by (auto simp: fallback_extraction_def Let_def)







lemma query_empty_text_path:
  assumes "text_of (get_key (q_query req)) = []"
  shows "query llm e partition_sort req s =
           (\<lparr>status = 400, body = [(''error'', JStr ''Query is required'')]\<rparr>, s)"
  using assms by (simp add: query_def Let_def)










section \<open>The examples evaluated\<close>


















section \<open>A query against an empty corpus\<close>


text \<open>
  An initialised index with zero chunks arises when an index is rebuilt from files that
  yield no chunk: the encoder returns the empty array, the normalisation raises on it, and
  the flag stays as the rebuild before left it.
\<close>

lemma empty_index_state_arises:
  "update_vector_db encoder_unit clock [blank_file] indexed_state
     = Some (failure ValueError, empty_index_state)"
proof -
  have files: "filter (\<lambda>f. is_file f
      \<and> lower (path_suffix (file_name f)) \<in> set [''.pdf'', ''.txt'', ''.docx'']) [blank_file]
     = [blank_file]"
    by code_simp
  have nonempty: "[blank_file] \<noteq> []"
    by simp
  have load: "load_embedding_model encoder_unit indexed_state = Inr indexed_state"
    by (simp add: load_embedding_model_def indexed_state_def)
  have chunks: "process_files [blank_file] [] [] = Some ([], [])"
    by code_simp
  have enc: "encode encoder_unit [] = Inr []"
    by (simp add: encoder_unit_def)
  have "update_vector_db encoder_unit clock [blank_file] indexed_state
          = Some (failure ValueError, indexed_state\<lparr>documents := [], embeddings := Some []\<rparr>)"
    using files nonempty load chunks enc by (rule update_normalize_failure_path)
  moreover have "indexed_state\<lparr>documents := [], embeddings := Some []\<rparr> = empty_index_state"
    by (simp add: indexed_state_def empty_index_state_def)
  ultimately show ?thesis
    by simp
qed





section \<open>The personal-info shortcut\<close>





section \<open>The provenance and confidence of a retrieved answer\<close>





end
